theory Spec2Isabelle
  imports Complex_Main
begin

section \<open>Python values, dictionaries and exceptions\<close>

text \<open>
  Hyperparameter values arrive as decoded JSON scalars. A Python \<open>dict\<close> with string keys is a
  map; \<open>d.get(k, v)\<close>, \<open>d.update(h)\<close> and \<open>h or {}\<close> are written out below.
\<close>

datatype pyval = PNone | PBool bool | PInt int | PFloat real | PStr string

type_synonym pydict = "string \<rightharpoonup> pyval"

text \<open>
  The exceptions that leave the service layer. \<open>NotFound\<close> is \<open>FileNotFoundError\<close>;
  \<open>UnknownCapability\<close>, \<open>NotTrained\<close> and \<open>NotInitialized\<close> are the three \<open>ValueError\<close>s the
  source raises itself (unknown model type, model not trained, model not initialised);
  \<open>TypeError\<close> and \<open>IsADirectoryError\<close> are Python's own; \<open>LibraryError\<close> is anything else
  raised inside scikit-learn, pandas or the ClearML SDK.
\<close>

datatype error =
    NotFound
  | UnknownCapability
  | NotTrained
  | NotInitialized
  | TypeError
  | IsADirectoryError
  | LibraryError string

definition dict_get :: "pydict \<Rightarrow> string \<Rightarrow> pyval \<Rightarrow> pyval" where
  "dict_get d k dflt = (case d k of None \<Rightarrow> dflt | Some v \<Rightarrow> v)"

text \<open>\<open>d.update(h)\<close>: every item of \<open>h\<close> is stored into \<open>d\<close>.\<close>

definition dict_update :: "pydict \<Rightarrow> pydict \<Rightarrow> pydict" where
  "dict_update d h = d ++ h"

text \<open>\<open>hyperparameters or {}\<close>: \<open>None\<close> and the empty dict both give the empty dict.\<close>

definition or_empty :: "pydict option \<Rightarrow> pydict" where
  "or_empty hp = (case hp of None \<Rightarrow> Map.empty | Some h \<Rightarrow> h)"

text \<open>Truthiness of an \<open>Optional[str]\<close>: \<open>None\<close> and the empty string are false.\<close>

definition truthy :: "string option \<Rightarrow> bool" where
  "truthy x = (case x of None \<Rightarrow> False | Some s \<Rightarrow> s \<noteq> [])"

text \<open>
  \<open>v > 10\<close> for a JSON scalar: numbers and booleans compare (\<open>True\<close> is 1), \<open>None\<close> and
  strings raise \<open>TypeError\<close>.
\<close>

definition gt_int :: "pyval \<Rightarrow> int \<Rightarrow> error + bool" where
  "gt_int v n =
     (case v of
        PInt i \<Rightarrow> Inr (i > n)
      | PFloat r \<Rightarrow> Inr (r > of_int n)
      | PBool b \<Rightarrow> Inr ((if b then 1 else 0) > n)
      | PNone \<Rightarrow> Inl TypeError
      | PStr s \<Rightarrow> Inl TypeError)"

section \<open>Paths\<close>

text \<open>
  Both services join a name to their directory with pathlib (\<open>directory / name\<close>).
  \<open>pure_path\<close> is the POSIX path this builds, written relative to the directory, or from the
  root when the name starts with a separator: the name is split at \<open>/\<close>, empty components
  and single dots vanish, double dots stay. Two names are the same file when their paths
  are equal; what only the file system resolves (double dots, links) is not followed.
\<close>

fun parts :: "string \<Rightarrow> string list" where
  "parts [] = [[]]"
| "parts (c # cs) =
     (if c = CHR ''/'' then [] # parts cs
      else (case parts cs of [] \<Rightarrow> [[c]] | p # ps \<Rightarrow> (c # p) # ps))"

definition pure_parts :: "string \<Rightarrow> string list" where
  "pure_parts s = filter (\<lambda>p. p \<noteq> [] \<and> p \<noteq> ''.'') (parts s)"

fun join_parts :: "string list \<Rightarrow> string" where
  "join_parts [] = []"
| "join_parts [p] = p"
| "join_parts (p # q # ps) = p @ ''/'' @ join_parts (q # ps)"

definition pure_path :: "string \<Rightarrow> string" where
  "pure_path s =
     (case s of [] \<Rightarrow> [] | c # cs \<Rightarrow> if c = CHR ''/'' then ''/'' else [])
     @ join_parts (pure_parts s)"

text \<open>\<open>Path.name\<close>: the last component of the path.\<close>

definition path_name :: "string \<Rightarrow> string" where
  "path_name s = (case rev (pure_parts s) of [] \<Rightarrow> [] | p # ps \<Rightarrow> p)"

text \<open>A name without a separator: it cannot leave the directory it is joined to.\<close>

definition no_separator :: "string \<Rightarrow> bool" where
  "no_separator name = (CHR ''/'' \<notin> set name)"

section \<open>The capability registry and the trainable units\<close>

datatype model_class = LogisticRegression | RandomForest

text \<open>\<open>MODEL_REGISTRY\<close> of \<open>app/ml/__init__.py\<close>.\<close>

definition MODEL_REGISTRY :: "string \<rightharpoonup> model_class" where
  "MODEL_REGISTRY =
     [''LogisticRegression'' \<mapsto> LogisticRegression, ''RandomForest'' \<mapsto> RandomForest]"

text \<open>\<open>get_default_hyperparameters\<close> of the two classes.\<close>

fun get_default_hyperparameters :: "model_class \<Rightarrow> pydict" where
  "get_default_hyperparameters LogisticRegression =
     [''C'' \<mapsto> PFloat 1, ''max_iter'' \<mapsto> PInt 100, ''solver'' \<mapsto> PStr ''lbfgs'',
      ''random_state'' \<mapsto> PInt 42]"
| "get_default_hyperparameters RandomForest =
     [''n_estimators'' \<mapsto> PInt 100, ''max_depth'' \<mapsto> PNone, ''min_samples_split'' \<mapsto> PInt 2,
      ''min_samples_leaf'' \<mapsto> PInt 1, ''random_state'' \<mapsto> PInt 42]"

text \<open>
  The scikit-learn estimator object held in \<open>self.model\<close>: the class, the keyword arguments
  its constructor was called with, and the fitted state (absent before \<open>fit\<close>).
\<close>

record 'f sk_estimator =
  sk_class :: model_class
  sk_params :: pydict
  sk_fitted :: "'f option"

text \<open>A \<open>BaseMLModel\<close> instance.\<close>

record 'f ml_model =
  cls :: model_class
  hyperparameters :: pydict
  model :: "'f sk_estimator option"
  is_trained :: bool

text \<open>\<open>_get_model_params\<close>, the same body in both classes.\<close>

definition get_model_params :: "model_class \<Rightarrow> pydict \<Rightarrow> pydict" where
  "get_model_params c self_hyperparameters =
     (let defaults = get_default_hyperparameters c
      in dict_update defaults self_hyperparameters)"

section \<open>External libraries\<close>

text \<open>
  scikit-learn, the ClearML SDK and the clock are outside the repository. They are
  parameters of the model: every call into them returns either the message of the
  exception it raised or its result. \<open>'d\<close> is tabular data (a frame or a series), \<open>'f\<close> the
  fitted state of an estimator.
  \<^item> \<open>sk_accepts\<close>: whether the constructor of the estimator class knows every keyword;
  \<^item> \<open>train_test_split\<close>: the 80/20 split with the fixed seed, giving
    \<open>X_train, X_test, y_train, y_test\<close>;
  \<^item> \<open>sk_fit\<close>, \<open>sk_predict\<close>: \<open>fit\<close> and \<open>predict\<close> of the estimator;
  \<^item> \<open>sk_scores\<close>: accuracy, precision, recall and F1 of the predictions on the test part;
  \<^item> \<open>sdk_task_init\<close>: closing the current task and opening a new one, giving its id;
  \<^item> \<open>sdk_report_text\<close>, \<open>sdk_report_metrics\<close>: fetching the task and reporting to its logger;
  \<^item> \<open>sdk_upload\<close>: the upload of the artifact and its registration, giving the model id;
  \<^item> \<open>now_strftime\<close>: the clock when the task is named, as \<open>strftime('%Y%m%d_%H%M%S')\<close>
    prints it;
  \<^item> \<open>now_isoformat\<close>: the clock when the record is written, as \<open>isoformat()\<close> prints it.

  The libraries are taken to leave the objects they are handed as they are: the
  hyperparameter dictionary passed to the SDK is the one the service goes on with.
\<close>

type_synonym metrics = "string \<rightharpoonup> real"

record ('d, 'f) environment =
  sk_accepts :: "model_class \<Rightarrow> pydict \<Rightarrow> bool"
  train_test_split :: "'d \<Rightarrow> 'd \<Rightarrow> string + ('d \<times> 'd \<times> 'd \<times> 'd)"
  sk_fit :: "model_class \<Rightarrow> pydict \<Rightarrow> 'd \<Rightarrow> 'd \<Rightarrow> string + 'f"
  sk_predict :: "'f \<Rightarrow> 'd \<Rightarrow> string + 'd"
  sk_scores :: "'d \<Rightarrow> 'd \<Rightarrow> string + (real \<times> real \<times> real \<times> real)"
  sdk_task_init :: "string \<Rightarrow> string \<Rightarrow> pydict \<Rightarrow> string + string"
  sdk_report_text :: "string \<Rightarrow> string + unit"
  sdk_report_metrics :: "string \<Rightarrow> metrics \<Rightarrow> string + unit"
  sdk_upload :: "string \<Rightarrow> string \<Rightarrow> string + string"
  now_strftime :: string
  now_isoformat :: string

section \<open>The experiment-tracking service\<close>

text \<open>
  The process settings the tracking service reads, and \<open>CLEARML_AVAILABLE\<close> (whether the SDK
  could be imported).
\<close>

record config =
  CLEARML_AVAILABLE :: bool
  clearml_api_host :: "string option"
  clearml_access_key :: "string option"
  clearml_secret_key :: "string option"

record clearml_service =
  enabled :: bool

definition is_configured :: "config \<Rightarrow> bool" where
  "is_configured cfg =
     (truthy (clearml_api_host cfg) \<and> truthy (clearml_access_key cfg)
      \<and> truthy (clearml_secret_key cfg))"

definition ClearMLService_init :: "config \<Rightarrow> clearml_service" where
  "ClearMLService_init cfg = \<lparr>enabled = (CLEARML_AVAILABLE cfg \<and> is_configured cfg)\<rparr>"

text \<open>
  Each method returns at once when the service is disabled and otherwise runs the SDK calls
  inside \<open>try ... except Exception\<close>, logging the exception and returning \<open>None\<close>.
\<close>

definition create_training_task ::
  "('d, 'f) environment \<Rightarrow> clearml_service \<Rightarrow> string \<Rightarrow> string \<Rightarrow> pydict
   \<Rightarrow> error + string option" where
  "create_training_task env svc task_name model_type hp =
     (if \<not> enabled svc then Inr None
      else case sdk_task_init env task_name model_type hp of
             Inl e \<Rightarrow> Inr None
           | Inr task_id \<Rightarrow> Inr (Some task_id))"

definition log_training_progress ::
  "('d, 'f) environment \<Rightarrow> clearml_service \<Rightarrow> string \<Rightarrow> error + unit" where
  "log_training_progress env svc task_id =
     (if \<not> enabled svc then Inr ()
      else case sdk_report_text env task_id of Inl e \<Rightarrow> Inr () | Inr u \<Rightarrow> Inr ())"

definition log_metrics ::
  "('d, 'f) environment \<Rightarrow> clearml_service \<Rightarrow> string \<Rightarrow> metrics \<Rightarrow> error + unit" where
  "log_metrics env svc task_id ms =
     (if \<not> enabled svc then Inr ()
      else case sdk_report_metrics env task_id ms of Inl e \<Rightarrow> Inr () | Inr u \<Rightarrow> Inr ())"

definition upload_model ::
  "('d, 'f) environment \<Rightarrow> clearml_service \<Rightarrow> string \<Rightarrow> string
   \<Rightarrow> error + string option" where
  "upload_model env svc task_id model_path =
     (if \<not> enabled svc then Inr None
      else case sdk_upload env task_id model_path of
             Inl e \<Rightarrow> Inr None
           | Inr model_id \<Rightarrow> Inr (Some model_id))"

text \<open>
  \<open>if clearml_task_id: self.clearml_service.log_training_progress(...)\<close>, as
  \<open>train_model\<close> writes it outside any \<open>try\<close>.
\<close>

definition progress_if_tracked ::
  "('d, 'f) environment \<Rightarrow> clearml_service \<Rightarrow> string option \<Rightarrow> error + unit" where
  "progress_if_tracked env svc clearml_task_id =
     (case clearml_task_id of
        None \<Rightarrow> Inr ()
      | Some t \<Rightarrow> if t = [] then Inr () else log_training_progress env svc t)"

section \<open>Construction, training, prediction and persistence of a unit\<close>

definition BaseMLModel_init :: "model_class \<Rightarrow> pydict option \<Rightarrow> 'f ml_model" where
  "BaseMLModel_init c hp =
     \<lparr>cls = c, hyperparameters = or_empty hp, model = None, is_trained = False\<rparr>"

text \<open>
  \<open>__init__\<close> of both classes: the estimator is constructed with \<open>**self._get_model_params()\<close>;
  a keyword the estimator's constructor does not know is a \<open>TypeError\<close>.
\<close>

definition model_init ::
  "('d, 'f) environment \<Rightarrow> model_class \<Rightarrow> pydict option \<Rightarrow> error + 'f ml_model" where
  "model_init env c hp =
     (let self = BaseMLModel_init c hp;
          params = get_model_params c (hyperparameters self)
      in if sk_accepts env c params
         then Inr (self\<lparr>model := Some \<lparr>sk_class = c, sk_params = params, sk_fitted = None\<rparr>\<rparr>)
         else Inl TypeError)"

text \<open>
  The part of \<open>train\<close> that both classes share, from \<open>if self.model is None\<close> on: fit, set
  the flag, predict on the test part, compute the four scores. The unit is returned as the
  method leaves it, also when it raises. The second test of \<open>self.model\<close>, after \<open>fit\<close>,
  finds the estimator that was just fitted.
\<close>

definition fit_and_score ::
  "('d, 'f) environment \<Rightarrow> 'f ml_model \<Rightarrow> 'd \<Rightarrow> 'd \<Rightarrow> 'd \<Rightarrow> 'd
   \<Rightarrow> (error + metrics) \<times> 'f ml_model" where
  "fit_and_score env self X_train X_test y_train y_test =
     (case model self of
        None \<Rightarrow> (Inl NotInitialized, self)
      | Some est \<Rightarrow>
          (case sk_fit env (sk_class est) (sk_params est) X_train y_train of
             Inl e \<Rightarrow> (Inl (LibraryError e), self)
           | Inr f \<Rightarrow>
               (let self' = self\<lparr>model := Some (est\<lparr>sk_fitted := Some f\<rparr>), is_trained := True\<rparr>
                in case sk_predict env f X_test of
                     Inl e \<Rightarrow> (Inl (LibraryError e), self')
                   | Inr y_pred \<Rightarrow>
                       (case sk_scores env y_test y_pred of
                          Inl e \<Rightarrow> (Inl (LibraryError e), self')
                        | Inr (a, p, r, f1) \<Rightarrow>
                            (Inr [''accuracy'' \<mapsto> a, ''precision'' \<mapsto> p, ''recall'' \<mapsto> r,
                                  ''f1'' \<mapsto> f1], self')))))"

text \<open>
  \<open>LogisticRegression.train\<close>. Its progress messages are sent inside
  \<open>try ... except Exception: pass\<close> blocks and change nothing here.
\<close>

definition LogisticRegression_train ::
  "('d, 'f) environment \<Rightarrow> 'f ml_model \<Rightarrow> 'd \<Rightarrow> 'd \<Rightarrow> string option
   \<Rightarrow> (error + metrics) \<times> 'f ml_model" where
  "LogisticRegression_train env self X y clearml_task_id =
     (case train_test_split env X y of
        Inl e \<Rightarrow> (Inl (LibraryError e), self)
      | Inr (X_train, X_test, y_train, y_test) \<Rightarrow>
          fit_and_score env self X_train X_test y_train y_test)"

text \<open>
  \<open>RandomForest.train\<close>. The condition \<open>clearml_task_id and n_estimators > 10\<close> of its
  progress loop is evaluated outside the \<open>try\<close> that guards the loop; \<open>and\<close> evaluates the
  comparison only when the task id is true.
\<close>

definition RandomForest_train ::
  "('d, 'f) environment \<Rightarrow> 'f ml_model \<Rightarrow> 'd \<Rightarrow> 'd \<Rightarrow> string option
   \<Rightarrow> (error + metrics) \<times> 'f ml_model" where
  "RandomForest_train env self X y clearml_task_id =
     (case train_test_split env X y of
        Inl e \<Rightarrow> (Inl (LibraryError e), self)
      | Inr (X_train, X_test, y_train, y_test) \<Rightarrow>
          (let n_estimators = dict_get (hyperparameters self) ''n_estimators'' (PInt 100)
           in case (if truthy clearml_task_id then gt_int n_estimators 10 else Inr False) of
                Inl e \<Rightarrow> (Inl e, self)
              | Inr report_progress \<Rightarrow>
                  fit_and_score env self X_train X_test y_train y_test))"

definition train ::
  "('d, 'f) environment \<Rightarrow> 'f ml_model \<Rightarrow> 'd \<Rightarrow> 'd \<Rightarrow> string option
   \<Rightarrow> (error + metrics) \<times> 'f ml_model" where
  "train env self X y clearml_task_id =
     (case cls self of
        LogisticRegression \<Rightarrow> LogisticRegression_train env self X y clearml_task_id
      | RandomForest \<Rightarrow> RandomForest_train env self X y clearml_task_id)"

text \<open>
  \<open>predict\<close>, the same body in both classes. An estimator that was never fitted raises
  inside scikit-learn.
\<close>

definition predict :: "('d, 'f) environment \<Rightarrow> 'f ml_model \<Rightarrow> 'd \<Rightarrow> error + 'd" where
  "predict env self X =
     (if \<not> is_trained self then Inl NotTrained
      else case model self of
             None \<Rightarrow> Inl NotInitialized
           | Some est \<Rightarrow>
               (case sk_fitted est of
                  None \<Rightarrow> Inl (LibraryError ''NotFittedError'')
                | Some f \<Rightarrow>
                    (case sk_predict env f X of
                       Inl e \<Rightarrow> Inl (LibraryError e)
                     | Inr y_pred \<Rightarrow> Inr y_pred)))"

section \<open>The model service\<close>

text \<open>
  One entry of \<open>self._metadata\<close>, as \<open>train_model\<close> writes it.
\<close>

record model_record =
  mr_type :: string
  created_at :: string
  mr_metrics :: metrics
  mr_hyperparameters :: pydict
  clearml_task_id :: "string option"

text \<open>
  The stores the service works on: the \<open>.joblib\<close> files of the models directory, by file
  name; the dictionary \<open>self._metadata\<close>; the content of \<open>metadata.json\<close>, when that file
  exists. \<open>effects\<close> records every change of a store in the order the service makes it.
  The file of a model is \<open>models_dir / f"{model_name}.joblib"\<close>; files are told apart by
  their path, so the names \<open>m\<close> and \<open>./m\<close> have one file while their records are two.
\<close>

datatype effect =
    ArtifactWritten string
  | ArtifactRemoved string
  | RecordWritten string
  | RecordRemoved string

record 'f state =
  files :: "string \<rightharpoonup> 'f ml_model"
  metadata :: "string \<rightharpoonup> model_record"
  metadata_file :: "(string \<rightharpoonup> model_record) option"
  effects :: "effect list"

definition model_path :: "string \<Rightarrow> string" where
  "model_path model_name = pure_path (model_name @ ''.joblib'')"

text \<open>\<open>BaseMLModel.save\<close>: refuses a unit that is not trained, else \<open>joblib.dump\<close>.\<close>

definition save :: "'f ml_model \<Rightarrow> string \<Rightarrow> 'f state \<Rightarrow> (error + unit) \<times> 'f state" where
  "save self path s =
     (if \<not> is_trained self then (Inl NotTrained, s)
      else (Inr (), s\<lparr>files := (files s)(path \<mapsto> self),
                      effects := effects s @ [ArtifactWritten path]\<rparr>))"

definition save_metadata :: "'f state \<Rightarrow> 'f state" where
  "save_metadata s = s\<lparr>metadata_file := Some (metadata s)\<rparr>"

text \<open>
  The first tracking block of \<open>train_model\<close>: when the service is enabled, a task named
  \<open>{model_name}_{timestamp}\<close> is created, and a progress message sent if an id came back; an
  exception anywhere in the block is logged and training continues.
\<close>

definition open_run ::
  "('d, 'f) environment \<Rightarrow> clearml_service \<Rightarrow> string \<Rightarrow> string \<Rightarrow> pydict option
   \<Rightarrow> string option" where
  "open_run env svc model_type model_name hp =
     (if enabled svc
      then (case create_training_task env svc (model_name @ ''_'' @ now_strftime env) model_type
                   (or_empty hp) of
              Inl e \<Rightarrow> None
            | Inr task_id \<Rightarrow>
                (case progress_if_tracked env svc task_id of
                   Inl e \<Rightarrow> task_id
                 | Inr u \<Rightarrow> task_id))
      else None)"

text \<open>
  The second tracking block, run when a task id is present: metrics, a final message and
  the upload, all inside one \<open>try ... except Exception\<close>. It returns whether the block ran to
  its end; \<open>train_model\<close> continues either way.
\<close>

definition close_run ::
  "('d, 'f) environment \<Rightarrow> clearml_service \<Rightarrow> string \<Rightarrow> metrics \<Rightarrow> string \<Rightarrow> bool" where
  "close_run env svc task_id ms path =
     (case log_metrics env svc task_id ms of
        Inl e \<Rightarrow> False
      | Inr u \<Rightarrow>
          (case log_training_progress env svc task_id of
             Inl e \<Rightarrow> False
           | Inr u \<Rightarrow>
               (case upload_model env svc task_id path of
                  Inl e \<Rightarrow> False
                | Inr model_id \<Rightarrow> True)))"

text \<open>
  \<open>train_model\<close>. The service's \<open>self.clearml_service\<close> is the instance its constructor
  builds from the process settings. A call that raises leaves the stores as they were;
  the artifact is saved before the record is written.
\<close>

definition train_model ::
  "('d, 'f) environment \<Rightarrow> config \<Rightarrow> 'f state \<Rightarrow> string \<Rightarrow> string \<Rightarrow> 'd \<Rightarrow> 'd
   \<Rightarrow> pydict option
   \<Rightarrow> (error + ('f ml_model \<times> metrics \<times> string option)) \<times> 'f state" where
  "train_model env cfg s model_type model_name X y hp =
     (case MODEL_REGISTRY model_type of
        None \<Rightarrow> (Inl UnknownCapability, s)
      | Some model_class \<Rightarrow>
          (let svc = ClearMLService_init cfg;
               task_id = open_run env svc model_type model_name hp
           in case model_init env model_class hp of
                Inl e \<Rightarrow> (Inl e, s)
              | Inr m0 \<Rightarrow>
                  (case progress_if_tracked env svc task_id of
                     Inl e \<Rightarrow> (Inl e, s)
                   | Inr u \<Rightarrow>
                       (case train env m0 X y task_id of
                          (Inl e, m1) \<Rightarrow> (Inl e, s)
                        | (Inr ms, m1) \<Rightarrow>
                            (case progress_if_tracked env svc task_id of
                               Inl e \<Rightarrow> (Inl e, s)
                             | Inr u \<Rightarrow>
                                 (case save m1 (model_path model_name) s of
                                    (Inl e, s1) \<Rightarrow> (Inl e, s1)
                                  | (Inr u, s1) \<Rightarrow>
                                      (let finished =
                                             (case task_id of
                                                None \<Rightarrow> False
                                              | Some t \<Rightarrow>
                                                  if t = [] then False
                                                  else close_run env svc t ms
                                                         (model_path model_name));
                                           s2 = s1\<lparr>metadata := (metadata s1)(model_name \<mapsto>
                                                   \<lparr>mr_type = model_type,
                                                    created_at = now_isoformat env,
                                                    mr_metrics = ms,
                                                    mr_hyperparameters = or_empty hp,
                                                    clearml_task_id = task_id\<rparr>),
                                                 effects := effects s1 @ [RecordWritten model_name]\<rparr>
                                       in (Inr (m1, ms, task_id), save_metadata s2))))))))"

definition load_model :: "'f state \<Rightarrow> string \<Rightarrow> error + 'f ml_model" where
  "load_model s model_name =
     (case files s (model_path model_name) of
        None \<Rightarrow> Inl NotFound
      | Some m \<Rightarrow> Inr m)"

definition delete_model :: "'f state \<Rightarrow> string \<Rightarrow> (error + bool) \<times> 'f state" where
  "delete_model s model_name =
     (if files s (model_path model_name) = None then (Inl NotFound, s)
      else
        (let s1 = s\<lparr>files := (files s)(model_path model_name := None),
                    effects := effects s @ [ArtifactRemoved (model_path model_name)]\<rparr>;
             s2 = (if metadata s1 model_name \<noteq> None
                   then save_metadata
                          (s1\<lparr>metadata := (metadata s1)(model_name := None),
                              effects := effects s1 @ [RecordRemoved model_name]\<rparr>)
                   else s1)
         in (Inr True, s2)))"

definition retrain_model ::
  "('d, 'f) environment \<Rightarrow> config \<Rightarrow> 'f state \<Rightarrow> string \<Rightarrow> 'd \<Rightarrow> 'd \<Rightarrow> pydict option
   \<Rightarrow> (error + ('f ml_model \<times> metrics \<times> string option)) \<times> 'f state" where
  "retrain_model env cfg s model_name X y hp =
     (case metadata s model_name of
        None \<Rightarrow> (Inl NotFound, s)
      | Some r \<Rightarrow>
          (let model_type = mr_type r;
               hyperparameters = (case hp of None \<Rightarrow> mr_hyperparameters r | Some h \<Rightarrow> h)
           in train_model env cfg s model_type model_name X y (Some hyperparameters)))"

text \<open>
  The prediction operation, as both transports perform it: \<open>load_model\<close>, then the unit's
  \<open>predict\<close> on the rows.
\<close>

definition predict_model :: "('d, 'f) environment \<Rightarrow> 'f state \<Rightarrow> string \<Rightarrow> 'd \<Rightarrow> error + 'd" where
  "predict_model env s model_name rows =
     (case load_model s model_name of
        Inl e \<Rightarrow> Inl e
      | Inr m \<Rightarrow> predict env m rows)"

section \<open>The dataset service\<close>

text \<open>
  The datasets directory holds files: it maps the path of a file to its text. The
  directory itself exists, as a directory, and so do its ancestors, which is what
  \<open>Path.exists\<close> sees for the paths without a component other than double dots (the empty
  name, \<open>.\<close>, \<open>..\<close>). pandas, the \<open>dvc\<close> command line tool and \<open>stat\<close> on a directory are
  parameters: \<open>to_csv\<close> and \<open>to_json\<close> give the text written for a frame, \<open>read_csv\<close> and
  \<open>read_json\<close> parse a text or raise, \<open>dvc_add\<close> gives the text of the sidecar file that
  \<open>dvc add\<close> leaves beside a dataset, if it leaves one, \<open>directory_name\<close> and
  \<open>directory_size\<close> give the name and the size of the directory at a path.
\<close>

type_synonym directory = "string \<rightharpoonup> string"

datatype node = File string | Directory

record 'd dataset_env =
  to_csv :: "'d \<Rightarrow> string"
  to_json :: "'d \<Rightarrow> string"
  read_csv :: "string \<Rightarrow> string + 'd"
  read_json :: "string \<Rightarrow> string + 'd"
  dvc_enabled :: bool
  dvc_add :: "string \<Rightarrow> string option"
  directory_name :: "string \<Rightarrow> string"
  directory_size :: "string \<Rightarrow> nat"


text \<open>What is found at \<open>datasets_dir / name\<close>, and \<open>Path.exists\<close> of it.\<close>

definition node_at :: "directory \<Rightarrow> string \<Rightarrow> node option" where
  "node_at dir name =
     (if list_all (\<lambda>p. p = ''..'') (pure_parts name) then Some Directory
      else map_option File (dir (pure_path name)))"

definition path_exists :: "directory \<Rightarrow> string \<Rightarrow> bool" where
  "path_exists dir name = (node_at dir name \<noteq> None)"

text \<open>\<open>name.endswith(ext)\<close>.\<close>

definition endswith :: "string \<Rightarrow> string \<Rightarrow> bool" where
  "endswith name ext =
     (length ext \<le> length name \<and> drop (length name - length ext) name = ext)"

text \<open>
  \<open>Path.suffix\<close>: the part of the path's last component from its last dot on, empty when
  there is no dot, when the last dot is the first character, or when it is the last one.
\<close>

definition path_suffix :: "string \<Rightarrow> string" where
  "path_suffix file_path =
     (let name = path_name file_path;
          after = rev (takeWhile (\<lambda>c. c \<noteq> CHR ''.'') (rev name))
      in if CHR ''.'' \<notin> set name then []
         else if length after + 1 < length name \<and> after \<noteq> [] then CHR ''.'' # after
         else [])"

text \<open>The loop \<open>for ext in [".csv", ".json"]\<close> of \<open>_find_dataset_file\<close>.\<close>

fun find_with_ext :: "directory \<Rightarrow> string \<Rightarrow> string list \<Rightarrow> string option" where
  "find_with_ext dir name [] = None"
| "find_with_ext dir name (ext # exts) =
     (if \<not> endswith name ext \<and> path_exists dir (name @ ext) then Some (name @ ext)
      else find_with_ext dir name exts)"

definition find_dataset_file :: "directory \<Rightarrow> string \<Rightarrow> string option" where
  "find_dataset_file dir name =
     (if path_exists dir name then Some name
      else find_with_ext dir name [''.csv'', ''.json''])"

text \<open>
  Reading the file at a path with the reader its suffix selects; pandas cannot open a
  directory.
\<close>

definition read_file :: "'d dataset_env \<Rightarrow> directory \<Rightarrow> string \<Rightarrow> error + 'd" where
  "read_file env dir file_path =
     (case node_at dir file_path of
        None \<Rightarrow> Inl NotFound
      | Some Directory \<Rightarrow> Inl IsADirectoryError
      | Some (File text) \<Rightarrow>
          (case (if path_suffix file_path = ''.json'' then read_json env text
                 else read_csv env text) of
             Inl e \<Rightarrow> Inl (LibraryError e)
           | Inr data \<Rightarrow> Inr data))"

definition load_dataset :: "'d dataset_env \<Rightarrow> directory \<Rightarrow> string \<Rightarrow> error + 'd" where
  "load_dataset env dir name =
     (case find_dataset_file dir name of
        None \<Rightarrow> Inl NotFound
      | Some file_path \<Rightarrow> read_file env dir file_path)"




section \<open>Vocabulary of the properties\<close>

text \<open>
  The state a successful \<open>train_model\<close> leaves: the artifact stored under the model's file
  name, the record stored under the model name and mirrored to \<open>metadata.json\<close>, and the
  two changes logged in that order.
\<close>

definition written ::
  "('d, 'f) environment \<Rightarrow> 'f state \<Rightarrow> string \<Rightarrow> string \<Rightarrow> pydict option \<Rightarrow> 'f ml_model
   \<Rightarrow> metrics \<Rightarrow> string option \<Rightarrow> 'f state" where
  "written env s model_type model_name hp m ms task_id =
     s\<lparr>files := (files s)(model_path model_name \<mapsto> m),
       metadata := (metadata s)(model_name \<mapsto>
          \<lparr>mr_type = model_type, created_at = now_isoformat env, mr_metrics = ms,
           mr_hyperparameters = or_empty hp, clearml_task_id = task_id\<rparr>),
       metadata_file := Some ((metadata s)(model_name \<mapsto>
          \<lparr>mr_type = model_type, created_at = now_isoformat env, mr_metrics = ms,
           mr_hyperparameters = or_empty hp, clearml_task_id = task_id\<rparr>)),
       effects := effects s @ [ArtifactWritten (model_path model_name), RecordWritten model_name]\<rparr>"

text \<open>The three lifecycle operations as requests, and a run of one request or of several.\<close>

datatype 'd lifecycle_op =
    Train string string 'd 'd "pydict option"
  | Retrain string 'd 'd "pydict option"
  | Delete string

definition failure :: "error + 'a \<Rightarrow> error option" where
  "failure r = (case r of Inl e \<Rightarrow> Some e | Inr v \<Rightarrow> None)"

definition run_op ::
  "('d, 'f) environment \<Rightarrow> config \<Rightarrow> 'f state \<Rightarrow> 'd lifecycle_op \<Rightarrow> error option \<times> 'f state" where
  "run_op env cfg s op =
     (case op of
        Train model_type model_name X y hp \<Rightarrow>
          apfst failure (train_model env cfg s model_type model_name X y hp)
      | Retrain model_name X y hp \<Rightarrow>
          apfst failure (retrain_model env cfg s model_name X y hp)
      | Delete model_name \<Rightarrow> apfst failure (delete_model s model_name))"

fun run_ops ::
  "('d, 'f) environment \<Rightarrow> config \<Rightarrow> 'f state \<Rightarrow> 'd lifecycle_op list \<Rightarrow> 'f state" where
  "run_ops env cfg s [] = s"
| "run_ops env cfg s (op # ops) = run_ops env cfg (snd (run_op env cfg s op)) ops"

text \<open>The store changes of a successful operation, in the order they are to happen.\<close>

fun store_changes :: "'d lifecycle_op \<Rightarrow> effect list" where
  "store_changes (Train model_type model_name X y hp) =
     [ArtifactWritten (model_path model_name), RecordWritten model_name]"
| "store_changes (Retrain model_name X y hp) =
     [ArtifactWritten (model_path model_name), RecordWritten model_name]"
| "store_changes (Delete model_name) =
     [ArtifactRemoved (model_path model_name), RecordRemoved model_name]"

definition op_name :: "'d lifecycle_op \<Rightarrow> string" where
  "op_name op =
     (case op of
        Train model_type model_name X y hp \<Rightarrow> model_name
      | Retrain model_name X y hp \<Rightarrow> model_name
      | Delete model_name \<Rightarrow> model_name)"

text \<open>
  Records and artifacts in lockstep: every record has its artifact file, and every
  artifact file is the file of some record.
\<close>

definition in_lockstep :: "'f state \<Rightarrow> bool" where
  "in_lockstep s =
     ((\<forall>n. metadata s n \<noteq> None \<longrightarrow> files s (model_path n) \<noteq> None)
      \<and> (\<forall>p. files s p \<noteq> None \<longrightarrow> (\<exists>n. metadata s n \<noteq> None \<and> model_path n = p)))"

text \<open>No record is kept under a name with a separator.\<close>

definition plain_names :: "'f state \<Rightarrow> bool" where
  "plain_names s = (\<forall>n. metadata s n \<noteq> None \<longrightarrow> no_separator n)"

definition all_trained :: "'f state \<Rightarrow> bool" where
  "all_trained s = (\<forall>p m. files s p = Some m \<longrightarrow> is_trained m)"


text \<open>The file name \<open>save_dataset\<close> writes for a name that does not end in \<open>.json\<close>.\<close>

definition csv_name :: "string \<Rightarrow> string" where
  "csv_name name = (if endswith name ''.csv'' then name else name @ ''.csv'')"

section \<open>Sample inputs\<close>

text \<open>
  Libraries that accept everything except a forest size that is not a number; the tracking
  backend opens a task and then refuses metrics and uploads. Data and fitted states are
  numbers.
\<close>

definition sample_env :: "(nat, nat) environment" where
  "sample_env =
     \<lparr>sk_accepts = (\<lambda>c p. True),
      train_test_split = (\<lambda>X y. Inr (X, X, y, y)),
      sk_fit = (\<lambda>c p X y.
        case gt_int (dict_get p ''n_estimators'' (PInt 100)) 0 of
          Inl e \<Rightarrow> Inl ''InvalidParameterError''
        | Inr b \<Rightarrow> Inr (X + y)),
      sk_predict = (\<lambda>f X. Inr X),
      sk_scores = (\<lambda>y_test y_pred. Inr (1, 1, 1, 1)),
      sdk_task_init = (\<lambda>task_name model_type hp. Inr ''task-1''),
      sdk_report_text = (\<lambda>task_id. Inr ()),
      sdk_report_metrics = (\<lambda>task_id ms. Inl ''connection refused''),
      sdk_upload = (\<lambda>task_id path. Inl ''connection refused''),
      now_strftime = ''20240101_000000'',
      now_isoformat = ''2024-01-01T00:00:00''\<rparr>"

definition tracking_on :: config where
  "tracking_on =
     \<lparr>CLEARML_AVAILABLE = True, clearml_api_host = Some ''http://clearml:8008'',
      clearml_access_key = Some ''key'', clearml_secret_key = Some ''secret''\<rparr>"

definition tracking_off :: config where
  "tracking_off =
     \<lparr>CLEARML_AVAILABLE = True, clearml_api_host = None,
      clearml_access_key = None, clearml_secret_key = None\<rparr>"

definition empty_state :: "nat state" where
  "empty_state = \<lparr>files = Map.empty, metadata = Map.empty, metadata_file = None, effects = []\<rparr>"

definition ten_trees :: pydict where
  "ten_trees = [''n_estimators'' \<mapsto> PInt 10]"

definition many_trees :: pydict where
  "many_trees = [''n_estimators'' \<mapsto> PStr ''many'']"

definition forest_state :: "nat state" where
  "forest_state =
     snd (train_model sample_env tracking_off empty_state ''RandomForest'' ''m'' 1 2 (Some ten_trees))"

definition untrained_forest :: "nat ml_model" where
  "untrained_forest = BaseMLModel_init RandomForest None"

definition planted_state :: "nat state" where
  "planted_state = empty_state\<lparr>files := [''m.joblib'' \<mapsto> untrained_forest]\<rparr>"

text \<open>Two trainings whose names differ and whose file is one.\<close>

definition aliased_state :: "nat state" where
  "aliased_state =
     run_ops sample_env tracking_off empty_state
       [Train ''RandomForest'' ''m'' 1 2 None, Train ''RandomForest'' ''./m'' 1 2 None]"

definition orphan_record :: "nat state" where
  "orphan_record =
     \<lparr>files = Map.empty,
      metadata = [''m'' \<mapsto> \<lparr>mr_type = ''RandomForest'', created_at = ''2024-01-01T00:00:00'',
                            mr_metrics = Map.empty, mr_hyperparameters = Map.empty,
                            clearml_task_id = None\<rparr>],
      metadata_file = None, effects = []\<rparr>"





section \<open>Facts about paths\<close>

lemma parts_no_separator: "CHR ''/'' \<notin> set s \<Longrightarrow> parts s = [s]"
  by (induction s) auto

lemma pure_path_no_separator:
  "no_separator s \<Longrightarrow> pure_path s = (if s = [] \<or> s = ''.'' then [] else s)"
  by (cases s) (auto simp: pure_path_def pure_parts_def parts_no_separator no_separator_def)

lemma pure_parts_no_separator:
  "no_separator s \<Longrightarrow> pure_parts s = (if s = [] \<or> s = ''.'' then [] else [s])"
  by (auto simp: pure_parts_def parts_no_separator no_separator_def)

lemma model_path_plain: "no_separator n \<Longrightarrow> model_path n = n @ ''.joblib''"
  by (auto simp: model_path_def pure_path_no_separator no_separator_def)

lemma model_path_inj:
  "no_separator a \<Longrightarrow> no_separator b \<Longrightarrow> (model_path a = model_path b) = (a = b)"
  by (simp add: model_path_plain)

lemma model_path_m: "model_path ''m'' = ''m.joblib''"
  by (simp add: model_path_plain no_separator_def)

lemma model_path_alias: "model_path ''./m'' = ''m.joblib''"
  by (simp add: model_path_def pure_path_def pure_parts_def)

section \<open>Facts about the model service\<close>

text \<open>The tracking calls that \<open>train_model\<close> makes outside a \<open>try\<close> never raise.\<close>

lemma progress_if_tracked_ok: "progress_if_tracked env svc t = Inr ()"
  by (simp add: progress_if_tracked_def log_training_progress_def split: option.splits sum.splits)

lemma open_run_disabled: "\<not> enabled svc \<Longrightarrow> open_run env svc t n hp = None"
  by (simp add: open_run_def)

lemma ClearMLService_not_configured:
  "\<not> is_configured cfg \<Longrightarrow> \<not> enabled (ClearMLService_init cfg)"
  by (simp add: ClearMLService_init_def)

text \<open>
  What each stage of training can return: its errors are never \<open>NotFound\<close> or
  \<open>UnknownCapability\<close>, and a unit that comes back with metrics is trained and otherwise as
  it was constructed.
\<close>

lemma fit_and_score_cases:
  "fit_and_score env m Xa Xb ya yb = (r, m') \<Longrightarrow>
     (\<exists>e. r = Inl e \<and> e \<noteq> NotFound \<and> e \<noteq> UnknownCapability) \<or>
     (\<exists>ms. r = Inr ms \<and> is_trained m' \<and> cls m' = cls m \<and> hyperparameters m' = hyperparameters m
        \<and> map_option sk_params (model m') = map_option sk_params (model m))"
  by (auto simp: fit_and_score_def Let_def split: option.splits sum.splits prod.splits)

lemma train_cases:
  "train env m X y t = (r, m') \<Longrightarrow>
     (\<exists>e. r = Inl e \<and> e \<noteq> NotFound \<and> e \<noteq> UnknownCapability) \<or>
     (\<exists>ms. r = Inr ms \<and> is_trained m' \<and> cls m' = cls m \<and> hyperparameters m' = hyperparameters m
        \<and> map_option sk_params (model m') = map_option sk_params (model m))"
  by (auto simp: train_def LogisticRegression_train_def RandomForest_train_def Let_def gt_int_def
      dest!: fit_and_score_cases split: model_class.splits sum.splits prod.splits if_splits pyval.splits)

lemma model_init_cases:
  "model_init env c hp = Inl e \<Longrightarrow> e = TypeError"
  "model_init env c hp = Inr m \<Longrightarrow> cls m = c \<and> hyperparameters m = or_empty hp \<and> \<not> is_trained m
      \<and> map_option sk_params (model m) = Some (get_model_params c (or_empty hp))"
  by (auto simp: model_init_def BaseMLModel_init_def Let_def split: if_splits)

lemma save_cases:
  "save m p s = (if is_trained m then (Inr (), s\<lparr>files := (files s)(p \<mapsto> m), effects := effects s @ [ArtifactWritten p]\<rparr>) else (Inl NotTrained, s))"
  by (simp add: save_def)

text \<open>
  \<open>train_model\<close> either fails and leaves the state as it was, or succeeds and leaves the
  state \<open>written\<close>.
\<close>

lemma train_model_cases:
  "train_model env cfg s t n X y hp = (r, s') \<Longrightarrow>
     (\<exists>e. r = Inl e \<and> s' = s \<and> e \<noteq> NotFound \<and> (e = UnknownCapability) = (MODEL_REGISTRY t = None)) \<or>
     (\<exists>m ms tid c. r = Inr (m, ms, tid) \<and> MODEL_REGISTRY t = Some c \<and> is_trained m \<and> cls m = c
        \<and> hyperparameters m = or_empty hp
        \<and> map_option sk_params (model m) = Some (get_model_params c (or_empty hp))
        \<and> s' = written env s t n hp m ms tid)"
proof (cases "MODEL_REGISTRY t")
  case None
  assume "train_model env cfg s t n X y hp = (r, s')"
  with None show ?thesis by (simp add: train_model_def)
next
  case (Some c)
  assume run: "train_model env cfg s t n X y hp = (r, s')"
  show ?thesis
  proof (cases "model_init env c hp")
    case (Inl e)
    with run Some model_init_cases(1)[OF Inl] show ?thesis
      by (auto simp: train_model_def Let_def)
  next
    case (Inr m0)
    note init = model_init_cases(2)[OF Inr]
    obtain r1 m1 where tr: "train env m0 X y (open_run env (ClearMLService_init cfg) t n hp) = (r1, m1)"
      by (cases "train env m0 X y (open_run env (ClearMLService_init cfg) t n hp)") auto
    from train_cases[OF tr] show ?thesis
    proof
      assume "\<exists>e. r1 = Inl e \<and> e \<noteq> NotFound \<and> e \<noteq> UnknownCapability"
      with run Some Inr tr show ?thesis
        by (auto simp: train_model_def Let_def progress_if_tracked_ok)
    next
      assume "\<exists>ms. r1 = Inr ms \<and> is_trained m1 \<and> cls m1 = cls m0 \<and> hyperparameters m1 = hyperparameters m0
        \<and> map_option sk_params (model m1) = map_option sk_params (model m0)"
      with run Some Inr tr init show ?thesis
        by (auto simp: train_model_def Let_def progress_if_tracked_ok save_cases written_def save_metadata_def)
    qed
  qed
qed

lemma delete_model_missing:
  "files s (model_path n) = None \<Longrightarrow> delete_model s n = (Inl NotFound, s)"
  by (simp add: delete_model_def)

lemma delete_model_present:
  assumes "files s (model_path n) \<noteq> None"
  shows "fst (delete_model s n) = Inr True"
    and "files (snd (delete_model s n)) = (files s)(model_path n := None)"
    and "metadata (snd (delete_model s n)) = (metadata s)(n := None)"
    and "effects (snd (delete_model s n)) =
           effects s @ ArtifactRemoved (model_path n)
             # (if metadata s n = None then [] else [RecordRemoved n])"
  using assms by (auto simp: delete_model_def Let_def save_metadata_def)

lemma retrain_model_unfold:
  "retrain_model env cfg s n X y hp =
     (case metadata s n of
        None \<Rightarrow> (Inl NotFound, s)
      | Some r \<Rightarrow> train_model env cfg s (mr_type r) n X y
                    (Some (case hp of None \<Rightarrow> mr_hyperparameters r | Some h \<Rightarrow> h)))"
  by (simp add: retrain_model_def Let_def split: option.splits)

text \<open>What a successful write and a single operation keep.\<close>

lemma all_trained_written: "all_trained s \<Longrightarrow> is_trained m \<Longrightarrow> all_trained (written env s t n hp m ms tid)"
  by (simp add: all_trained_def written_def)

lemma effects_written: "effects (written env s t n hp m ms tid) = effects s @ [ArtifactWritten (model_path n), RecordWritten n]"
  by (simp add: written_def)

lemma files_written: "files (written env s t n hp m ms tid) = (files s)(model_path n \<mapsto> m)"
  by (simp add: written_def)

lemma metadata_written:
  "metadata (written env s t n hp m ms tid) k \<noteq> None = (k = n \<or> metadata s k \<noteq> None)"
  by (simp add: written_def)

lemma in_lockstep_written:
  assumes "in_lockstep s"
  shows "in_lockstep (written env s t n hp m ms tid)"
proof -
  let ?s = "written env s t n hp m ms tid"
  have a: "\<forall>k. metadata ?s k \<noteq> None \<longrightarrow> files ?s (model_path k) \<noteq> None"
  proof (intro allI impI)
    fix k assume "metadata ?s k \<noteq> None"
    then have "k = n \<or> metadata s k \<noteq> None" by (simp only: metadata_written)
    then show "files ?s (model_path k) \<noteq> None"
    proof
      assume "k = n"
      then show ?thesis by (simp add: files_written)
    next
      assume "metadata s k \<noteq> None"
      with assms have "files s (model_path k) \<noteq> None" unfolding in_lockstep_def by blast
      then show ?thesis by (simp add: files_written)
    qed
  qed
  have b: "\<forall>p. files ?s p \<noteq> None \<longrightarrow> (\<exists>k. metadata ?s k \<noteq> None \<and> model_path k = p)"
  proof (intro allI impI)
    fix p assume f: "files ?s p \<noteq> None"
    show "\<exists>k. metadata ?s k \<noteq> None \<and> model_path k = p"
    proof (cases "p = model_path n")
      case True
      have "metadata ?s n \<noteq> None" by (simp only: metadata_written) simp
      with True show ?thesis by blast
    next
      case False
      with f have "files s p \<noteq> None" by (simp add: files_written)
      with assms obtain k where k: "metadata s k \<noteq> None" "model_path k = p"
        unfolding in_lockstep_def by blast
      from k(1) have "metadata ?s k \<noteq> None" by (simp only: metadata_written) simp
      with k(2) show ?thesis by blast
    qed
  qed
  from a b show ?thesis unfolding in_lockstep_def by blast
qed

lemma plain_names_written:
  "plain_names s \<Longrightarrow> no_separator n \<Longrightarrow> plain_names (written env s t n hp m ms tid)"
  unfolding plain_names_def by (simp only: metadata_written) blast

lemma train_step:
  assumes "train_model env cfg s t n X y hp = (r, s')"
  shows "(in_lockstep s \<longrightarrow> in_lockstep s') \<and> (all_trained s \<longrightarrow> all_trained s')
     \<and> (plain_names s \<and> no_separator n \<longrightarrow> plain_names s')
     \<and> effects s' = effects s @ (case failure r of Some e \<Rightarrow> [] | None \<Rightarrow> [ArtifactWritten (model_path n), RecordWritten n])"
  using train_model_cases[OF assms]
  by (auto simp: failure_def in_lockstep_written all_trained_written effects_written
      plain_names_written)

lemma delete_step_trained:
  "all_trained s \<Longrightarrow> all_trained (snd (delete_model s n))"
proof (cases "files s (model_path n) = None")
  case True
  assume "all_trained s"
  with True show ?thesis by (simp add: delete_model_missing)
next
  case False
  assume "all_trained s"
  with delete_model_present(2)[OF False] show ?thesis by (simp add: all_trained_def)
qed

lemma delete_step:
  assumes lock: "in_lockstep s" and plain: "plain_names s" and n: "no_separator n"
    and run: "delete_model s n = (r, s')"
  shows "in_lockstep s' \<and> plain_names s'
     \<and> effects s' = effects s @ (case failure r of Some e \<Rightarrow> [] | None \<Rightarrow> [ArtifactRemoved (model_path n), RecordRemoved n])"
proof (cases "files s (model_path n) = None")
  case True
  with run delete_model_missing[of s n] lock plain show ?thesis by (auto simp: failure_def)
next
  case False
  note p = delete_model_present[OF False]
  from run have r: "r = fst (delete_model s n)" and s': "s' = snd (delete_model s n)" by simp_all
  from lock False obtain k where k: "metadata s k \<noteq> None" "model_path k = model_path n"
    unfolding in_lockstep_def by blast
  with plain n have "k = n" by (simp add: plain_names_def model_path_inj)
  with k have rec: "metadata s n \<noteq> None" by simp
  have a: "\<forall>k. metadata s' k \<noteq> None \<longrightarrow> files s' (model_path k) \<noteq> None"
  proof (intro allI impI)
    fix k assume "metadata s' k \<noteq> None"
    then have kn: "k \<noteq> n" and mk: "metadata s k \<noteq> None" by (auto simp: s' p split: if_splits)
    with plain n have "model_path k \<noteq> model_path n" by (simp add: plain_names_def model_path_inj)
    moreover from lock mk have "files s (model_path k) \<noteq> None" unfolding in_lockstep_def by blast
    ultimately show "files s' (model_path k) \<noteq> None" by (simp add: s' p)
  qed
  have b: "\<forall>q. files s' q \<noteq> None \<longrightarrow> (\<exists>k. metadata s' k \<noteq> None \<and> model_path k = q)"
  proof (intro allI impI)
    fix q assume "files s' q \<noteq> None"
    then have qn: "q \<noteq> model_path n" and fq: "files s q \<noteq> None" by (auto simp: s' p split: if_splits)
    from lock fq obtain k where "metadata s k \<noteq> None" "model_path k = q"
      unfolding in_lockstep_def by blast
    with qn show "\<exists>k. metadata s' k \<noteq> None \<and> model_path k = q"
      by (intro exI[of _ k]) (auto simp: s' p)
  qed
  have c: "plain_names s'" using plain by (simp add: plain_names_def s' p)
  show ?thesis using a b c rec by (simp add: in_lockstep_def r s' p failure_def)
qed

lemma run_op_all_trained: "all_trained s \<Longrightarrow> all_trained (snd (run_op env cfg s op))"
proof (cases op)
  case (Train t n X y hp)
  assume a: "all_trained s"
  obtain r s' where run: "train_model env cfg s t n X y hp = (r, s')"
    by (cases "train_model env cfg s t n X y hp") auto
  with train_step[OF run] a Train show ?thesis by (simp add: run_op_def)
next
  case (Retrain n X y hp)
  assume a: "all_trained s"
  show ?thesis
  proof (cases "metadata s n")
    case None
    with a Retrain show ?thesis by (simp add: run_op_def retrain_model_unfold)
  next
    case (Some rec)
    let ?hp = "Some (case hp of None \<Rightarrow> mr_hyperparameters rec | Some h \<Rightarrow> h)"
    obtain r s' where run: "train_model env cfg s (mr_type rec) n X y ?hp = (r, s')"
      by (cases "train_model env cfg s (mr_type rec) n X y ?hp") auto
    with train_step[OF run] a Retrain Some show ?thesis
      by (simp add: run_op_def retrain_model_unfold)
  qed
next
  case (Delete n)
  assume a: "all_trained s"
  with delete_step_trained[OF a, of n] Delete show ?thesis by (simp add: run_op_def)
qed

lemma run_ops_all_trained: "all_trained s \<Longrightarrow> all_trained (run_ops env cfg s ops)"
  by (induction ops arbitrary: s) (simp_all add: run_op_all_trained)

lemma predict_model_trained:
  "all_trained s \<Longrightarrow> predict_model env s n rows \<noteq> Inl NotTrained"
  by (auto simp: predict_model_def load_model_def predict_def all_trained_def
      split: option.splits sum.splits)

text \<open>
  With a task id, a forest's \<open>train\<close> raises \<open>TypeError\<close> once the data is split, whatever
  the libraries do, when \<open>n_estimators\<close> cannot be compared with a number.
\<close>

lemma tracked_forest_raises:
  assumes "task_id \<noteq> []" and "cls self = RandomForest"
    and "train_test_split env X y = Inr split"
    and "gt_int (dict_get (hyperparameters self) ''n_estimators'' (PInt 100)) 10 = Inl TypeError"
  shows "train env self X y (Some task_id) = (Inl TypeError, self)"
  using assms by (cases split) (simp add: train_def RandomForest_train_def truthy_def Let_def)

section \<open>Facts about the dataset service\<close>

lemma endswith_append [simp]: "endswith (name @ ext) ext"
  by (simp add: endswith_def)



lemma no_separator_append [simp]:
  "no_separator (a @ b) = (no_separator a \<and> no_separator b)"
  by (auto simp: no_separator_def)

lemma no_separator_ext [simp]:
  "no_separator ''.csv''" "no_separator ''.json''" "no_separator ''.dvc''"
  by (simp_all add: no_separator_def)

lemma no_separator_csv_name [simp]: "no_separator (csv_name n) = no_separator n"
  by (simp add: csv_name_def)

text \<open>A name without a separator is the directory, an ancestor of it, or an entry.\<close>

lemma node_at_no_separator:
  "no_separator n \<Longrightarrow>
     node_at dir n = (if n = [] \<or> n = ''.'' \<or> n = ''..'' then Some Directory
                      else map_option File (dir n))"
  by (auto simp: node_at_def pure_parts_no_separator pure_path_no_separator)

lemma node_at_ext:
  assumes "no_separator n" and "ext = ''.csv'' \<or> ext = ''.json'' \<or> ext = ''.dvc''"
  shows "node_at dir (n @ ext) = map_option File (dir (n @ ext))"
  using assms by (auto simp: node_at_no_separator)









lemma empty_name_is_the_directory:
  "find_dataset_file dir [] = Some [] \<and> load_dataset env dir [] = Inl IsADirectoryError"
  by (simp add: find_dataset_file_def load_dataset_def read_file_def path_exists_def node_at_def
      pure_parts_def)

section \<open>Facts about the sample inputs\<close>

lemmas sample_defs = sample_env_def tracking_on_def tracking_off_def empty_state_def ten_trees_def
  train_model_def train_def RandomForest_train_def LogisticRegression_train_def fit_and_score_def
  model_init_def BaseMLModel_init_def get_model_params_def dict_update_def dict_get_def or_empty_def
  truthy_def gt_int_def open_run_def create_training_task_def progress_if_tracked_def
  log_training_progress_def ClearMLService_init_def is_configured_def save_def save_metadata_def
  MODEL_REGISTRY_def model_path_m model_path_alias close_run_def log_metrics_def upload_model_def
  Let_def


lemma in_lockstep_empty: "in_lockstep empty_state"
  by (simp add: in_lockstep_def empty_state_def)

lemma plain_names_empty: "plain_names empty_state"
  by (simp add: plain_names_def empty_state_def)

lemma all_trained_empty: "all_trained empty_state"
  by (simp add: all_trained_def empty_state_def)

lemma forest_state_files: "files forest_state (model_path ''m'') \<noteq> None"
  by (simp add: forest_state_def sample_defs)

lemma forest_state_metadata:
  "metadata forest_state ''m'' =
     Some \<lparr>mr_type = ''RandomForest'', created_at = ''2024-01-01T00:00:00'',
           mr_metrics = [''accuracy'' \<mapsto> 1, ''precision'' \<mapsto> 1, ''recall'' \<mapsto> 1, ''f1'' \<mapsto> 1],
           mr_hyperparameters = ten_trees, clearml_task_id = None\<rparr>"
  by (simp add: forest_state_def sample_defs)

lemma aliased_state_files: "(files aliased_state p \<noteq> None) = (p = ''m.joblib'')"
  by (simp add: aliased_state_def run_op_def sample_defs)

lemma aliased_state_metadata:
  "(metadata aliased_state n \<noteq> None) = (n = ''m'' \<or> n = ''./m'')"
  by (auto simp: aliased_state_def run_op_def sample_defs)

lemma in_lockstep_aliased: "in_lockstep aliased_state"
  unfolding in_lockstep_def
  by (simp only: aliased_state_files aliased_state_metadata) (auto simp: model_path_m model_path_alias)

section \<open>The lifecycle of models\<close>

text \<open>
  C1, as the code has it. Let every record be kept under a name without a path separator,
  and let records and artifacts be in lockstep: every record has its artifact file and
  every artifact file is the file of a record. A lifecycle operation (train, retrain,
  delete) on a name without a separator keeps both, and it changes the stores in a fixed
  order: a failed operation changes nothing; a successful train or retrain writes the
  artifact and then the record; a successful delete removes the artifact and then the
  record.
\<close>

theorem lifecycle_keeps_lockstep:
  assumes "in_lockstep s" and "plain_names s" and "no_separator (op_name op)"
    and "run_op env cfg s op = (outcome, s')"
  shows "in_lockstep s' \<and> plain_names s' \<and>
         effects s' = effects s @ (case outcome of Some e \<Rightarrow> [] | None \<Rightarrow> store_changes op)"
proof (cases op)
  case (Train t n X y hp)
  obtain r where "train_model env cfg s t n X y hp = (r, s')" and "outcome = failure r"
    using assms(4) Train by (cases "train_model env cfg s t n X y hp") (auto simp: run_op_def)
  with train_step[of env cfg s t n X y hp r s'] assms(1-3) Train show ?thesis
    by (simp add: op_name_def split: option.splits)
next
  case (Retrain n X y hp)
  show ?thesis
  proof (cases "metadata s n")
    case None
    with assms Retrain show ?thesis
      by (auto simp: run_op_def retrain_model_unfold failure_def)
  next
    case (Some rec)
    let ?hp = "Some (case hp of None \<Rightarrow> mr_hyperparameters rec | Some h \<Rightarrow> h)"
    obtain r where "train_model env cfg s (mr_type rec) n X y ?hp = (r, s')" and "outcome = failure r"
      using assms(4) Retrain Some
      by (cases "train_model env cfg s (mr_type rec) n X y ?hp") (auto simp: run_op_def retrain_model_unfold)
    with train_step[of env cfg s "mr_type rec" n X y ?hp r s'] assms(1-3) Retrain show ?thesis
      by (simp add: op_name_def split: option.splits)
  qed
next
  case (Delete n)
  obtain r where run: "delete_model s n = (r, s')" and "outcome = failure r"
    using assms(4) Delete by (cases "delete_model s n") (auto simp: run_op_def)
  moreover have "no_separator n" using assms(3) Delete by (simp add: op_name_def)
  ultimately show ?thesis
    using delete_step[OF assms(1,2) _ run] Delete by (simp split: option.splits)
qed

text \<open>
  From the empty directory: training a forest named \<open>m\<close>, and from there retraining it,
  deleting it, and failing to delete a model that is not there.
\<close>

theorem lifecycle_keeps_lockstep_witness:
  "in_lockstep empty_state \<and> plain_names empty_state \<and> no_separator ''m''
   \<and> run_op sample_env tracking_off empty_state
         (Train ''RandomForest'' ''m'' 1 2 (Some ten_trees)) = (None, forest_state)
   \<and> in_lockstep forest_state \<and> plain_names forest_state
   \<and> effects forest_state = [ArtifactWritten ''m.joblib'', RecordWritten ''m'']
   \<and> fst (run_op sample_env tracking_off forest_state (Retrain ''m'' 5 6 None)) = None
   \<and> in_lockstep (snd (run_op sample_env tracking_off forest_state (Retrain ''m'' 5 6 None)))
   \<and> effects (snd (run_op sample_env tracking_off forest_state (Retrain ''m'' 5 6 None)))
       = [ArtifactWritten ''m.joblib'', RecordWritten ''m'',
          ArtifactWritten ''m.joblib'', RecordWritten ''m'']
   \<and> fst (run_op sample_env tracking_off forest_state (Delete ''m'')) = None
   \<and> in_lockstep (snd (run_op sample_env tracking_off forest_state (Delete ''m'')))
   \<and> effects (snd (run_op sample_env tracking_off forest_state (Delete ''m'')))
       = [ArtifactWritten ''m.joblib'', RecordWritten ''m'',
          ArtifactRemoved ''m.joblib'', RecordRemoved ''m'']
   \<and> fst (run_op sample_env tracking_off forest_state (Delete ''other'')) = Some NotFound
   \<and> snd (run_op sample_env tracking_off forest_state (Delete ''other'')) = forest_state"
proof -
  let ?train = "Train ''RandomForest'' ''m'' (1::nat) 2 (Some ten_trees)"
  let ?retrain = "Retrain ''m'' (5::nat) 6 None"
  let ?delete = "Delete ''m'' :: nat lifecycle_op"
  let ?missing = "Delete ''other'' :: nat lifecycle_op"
  have m: "no_separator ''m''" "no_separator ''other''" by (simp_all add: no_separator_def)
  have t_ok: "fst (run_op sample_env tracking_off empty_state ?train) = None"
    by (simp add: run_op_def failure_def sample_defs)
  have t_run: "run_op sample_env tracking_off empty_state ?train = (None, forest_state)"
    using t_ok by (simp add: prod_eq_iff forest_state_def run_op_def)
  note t = lifecycle_keeps_lockstep[OF in_lockstep_empty plain_names_empty _ t_run]
  have t': "in_lockstep forest_state" "plain_names forest_state"
    "effects forest_state = [ArtifactWritten ''m.joblib'', RecordWritten ''m'']"
    using t m by (simp_all add: op_name_def empty_state_def model_path_m)
  have r_ok: "fst (run_op sample_env tracking_off forest_state ?retrain) = None"
    by (simp add: run_op_def failure_def retrain_model_def forest_state_metadata sample_defs)
  have r_run: "run_op sample_env tracking_off forest_state ?retrain
                 = (None, snd (run_op sample_env tracking_off forest_state ?retrain))"
    using r_ok by (simp add: prod_eq_iff)
  have d_ok: "fst (run_op sample_env tracking_off forest_state ?delete) = None"
    using forest_state_files by (simp add: run_op_def failure_def delete_model_def Let_def)
  have d_run: "run_op sample_env tracking_off forest_state ?delete
                 = (None, snd (run_op sample_env tracking_off forest_state ?delete))"
    using d_ok by (simp add: prod_eq_iff)
  have x_ok: "fst (run_op sample_env tracking_off forest_state ?missing) = Some NotFound"
    by (simp add: run_op_def failure_def delete_model_def forest_state_def sample_defs
        model_path_plain no_separator_def)
  have x_run: "run_op sample_env tracking_off forest_state ?missing
                 = (Some NotFound, snd (run_op sample_env tracking_off forest_state ?missing))"
    using x_ok by (simp add: prod_eq_iff)
  have x_same: "snd (run_op sample_env tracking_off forest_state ?missing) = forest_state"
    by (simp add: run_op_def delete_model_def forest_state_def sample_defs
        model_path_plain no_separator_def)
  show ?thesis
    using t' t_run in_lockstep_empty plain_names_empty m r_ok d_ok x_ok x_same
      lifecycle_keeps_lockstep[OF t'(1,2) _ r_run]
      lifecycle_keeps_lockstep[OF t'(1,2) _ d_run]
      lifecycle_keeps_lockstep[OF t'(1,2) _ x_run]
    by (simp add: op_name_def model_path_m)
qed

text \<open>
  The names \<open>m\<close> and \<open>./m\<close> have one artifact file and two records. After both are
  trained the stores are in lockstep; deleting \<open>m\<close> removes the file they share and the
  record of \<open>m\<close>, and the record of \<open>./m\<close> is left without an artifact.
\<close>

theorem alias_breaks_lockstep_counterexample:
  "aliased_state =
     run_ops sample_env tracking_off empty_state
       [Train ''RandomForest'' ''m'' 1 2 None, Train ''RandomForest'' ''./m'' 1 2 None]
   \<and> model_path ''./m'' = model_path ''m''
   \<and> metadata aliased_state ''m'' \<noteq> None
   \<and> metadata aliased_state ''./m'' \<noteq> None
   \<and> files aliased_state (model_path ''m'') \<noteq> None
   \<and> in_lockstep aliased_state
   \<and> fst (run_op sample_env tracking_off aliased_state (Delete ''m'')) = None
   \<and> metadata (snd (run_op sample_env tracking_off aliased_state (Delete ''m''))) ''./m'' \<noteq> None
   \<and> files (snd (run_op sample_env tracking_off aliased_state (Delete ''m''))) (model_path ''./m'')
       = None
   \<and> \<not> in_lockstep (snd (run_op sample_env tracking_off aliased_state (Delete ''m'')))"
proof -
  let ?s = "snd (run_op sample_env tracking_off aliased_state (Delete ''m''))"
  have f: "files aliased_state (model_path ''m'') \<noteq> None"
    by (simp only: aliased_state_files model_path_m)
  note p = delete_model_present[OF f]
  have ok: "fst (run_op sample_env tracking_off aliased_state (Delete ''m'')) = None"
    using p(1) by (simp add: run_op_def failure_def)
  have s: "?s = snd (delete_model aliased_state ''m'')" by (simp add: run_op_def)
  have rec: "metadata ?s ''./m'' \<noteq> None"
    using aliased_state_metadata[of "''./m''"] by (simp add: s p(3))
  have gone: "files ?s (model_path ''./m'') = None"
    by (simp add: s p(2) model_path_m model_path_alias)
  from rec gone have broken: "\<not> in_lockstep ?s" unfolding in_lockstep_def by blast
  show ?thesis
    using f ok rec gone broken in_lockstep_aliased aliased_state_metadata[of "''m''"]
      aliased_state_metadata[of "''./m''"]
    by (simp add: model_path_m model_path_alias aliased_state_def)
qed

text \<open>
  C2, as the code has it. \<open>delete_model\<close> fails with \<open>NotFound\<close> exactly when no artifact
  file exists, and then changes nothing, whether or not a record exists. When the artifact
  exists it succeeds: the artifact is removed first, then the record if there is one, so
  an artifact without a record is deleted alone.
\<close>

theorem delete_needs_artifact:
  "(fst (delete_model s n) = Inl NotFound) = (files s (model_path n) = None)
   \<and> (files s (model_path n) = None \<longrightarrow> snd (delete_model s n) = s)
   \<and> (files s (model_path n) \<noteq> None \<longrightarrow>
        fst (delete_model s n) = Inr True
        \<and> files (snd (delete_model s n)) = (files s)(model_path n := None)
        \<and> metadata (snd (delete_model s n)) = (metadata s)(n := None)
        \<and> effects (snd (delete_model s n)) =
            effects s @ ArtifactRemoved (model_path n)
              # (if metadata s n = None then [] else [RecordRemoved n]))"
proof (cases "files s (model_path n) = None")
  case True
  then show ?thesis by (simp add: delete_model_missing)
next
  case False
  with delete_model_present[OF False] show ?thesis by auto
qed

theorem delete_needs_artifact_witness:
  "files forest_state (model_path ''m'') \<noteq> None
   \<and> fst (delete_model forest_state ''m'') = Inr True
   \<and> files (snd (delete_model forest_state ''m'')) (model_path ''m'') = None
   \<and> metadata (snd (delete_model forest_state ''m'')) ''m'' = None
   \<and> files empty_state (model_path ''m'') = None
   \<and> delete_model empty_state ''m'' = (Inl NotFound, empty_state)"
  using delete_needs_artifact[of forest_state "''m''"] delete_needs_artifact[of empty_state "''m''"]
    forest_state_files
  by (simp add: empty_state_def prod_eq_iff)

text \<open>
  A record without an artifact: \<open>delete_model\<close> raises \<open>NotFound\<close> and the record stays, so
  deletion of the record alone does not succeed.
\<close>

theorem delete_orphan_record_counterexample:
  "metadata orphan_record ''m'' \<noteq> None
   \<and> files orphan_record (model_path ''m'') = None
   \<and> delete_model orphan_record ''m'' = (Inl NotFound, orphan_record)"
  by (simp add: orphan_record_def delete_model_def)

text \<open>
  C3, as the code has it. After a successful \<open>train_model\<close> the record of the model stores
  under \<open>hyperparameters\<close> the mapping the caller supplied (the empty mapping when none was
  supplied), and so does the unit; the defaults are merged with it only in the keyword
  arguments the estimator is constructed with.
\<close>

theorem record_keeps_supplied_hyperparameters:
  assumes "train_model env cfg s t n X y hp = (Inr (m, ms, task_id), s')"
  shows "map_option mr_hyperparameters (metadata s' n) = Some (or_empty hp)
         \<and> hyperparameters m = or_empty hp
         \<and> (\<exists>c. MODEL_REGISTRY t = Some c
                \<and> map_option sk_params (model m) = Some (get_model_params c (or_empty hp)))"
  using train_model_cases[OF assms] by (auto simp: written_def)

theorem record_keeps_supplied_hyperparameters_witness:
  "train_model sample_env tracking_off empty_state ''RandomForest'' ''m'' 1 2 (Some ten_trees)
     = (Inr (\<lparr>cls = RandomForest, hyperparameters = ten_trees,
               model = Some \<lparr>sk_class = RandomForest,
                             sk_params = get_model_params RandomForest ten_trees,
                             sk_fitted = Some 3\<rparr>,
               is_trained = True\<rparr>,
             [''accuracy'' \<mapsto> 1, ''precision'' \<mapsto> 1, ''recall'' \<mapsto> 1, ''f1'' \<mapsto> 1], None),
        forest_state)
   \<and> map_option mr_hyperparameters (metadata forest_state ''m'') = Some ten_trees"
proof -
  have run: "train_model sample_env tracking_off empty_state ''RandomForest'' ''m'' 1 2 (Some ten_trees)
     = (Inr (\<lparr>cls = RandomForest, hyperparameters = ten_trees,
               model = Some \<lparr>sk_class = RandomForest,
                             sk_params = get_model_params RandomForest ten_trees,
                             sk_fitted = Some 3\<rparr>,
               is_trained = True\<rparr>,
             [''accuracy'' \<mapsto> 1, ''precision'' \<mapsto> 1, ''recall'' \<mapsto> 1, ''f1'' \<mapsto> 1], None),
        forest_state)"
    unfolding forest_state_def by (simp add: prod_eq_iff) (simp add: sample_defs)
  show ?thesis using record_keeps_supplied_hyperparameters[OF run] run
    by (simp add: or_empty_def)
qed

text \<open>
  A forest trained with \<open>{"n_estimators": 10}\<close>: the record holds exactly that mapping,
  which has no \<open>max_depth\<close>, while the effective parameters have one.
\<close>

theorem record_not_effective_counterexample:
  "fst (train_model sample_env tracking_off empty_state ''RandomForest'' ''m'' 1 2 (Some ten_trees))
     = Inr (\<lparr>cls = RandomForest, hyperparameters = ten_trees,
              model = Some \<lparr>sk_class = RandomForest,
                            sk_params = get_model_params RandomForest ten_trees,
                            sk_fitted = Some 3\<rparr>,
              is_trained = True\<rparr>,
            [''accuracy'' \<mapsto> 1, ''precision'' \<mapsto> 1, ''recall'' \<mapsto> 1, ''f1'' \<mapsto> 1], None)
   \<and> map_option mr_hyperparameters
        (metadata (snd (train_model sample_env tracking_off empty_state ''RandomForest'' ''m'' 1 2
                          (Some ten_trees))) ''m'') = Some ten_trees
   \<and> ten_trees ''max_depth'' = None
   \<and> get_model_params RandomForest ten_trees ''max_depth'' = Some PNone"
  by (simp add: sample_defs)

text \<open>
  C4. A forest with \<open>{"n_estimators": "many"}\<close>, trained with tracking configured: the
  task opens, and the condition \<open>clearml_task_id and n_estimators > 10\<close> of the progress
  loop, which only a tracked run evaluates and which stands outside the \<open>try\<close> blocks that
  guard the tracking code around it, raises \<open>TypeError\<close> out of \<open>train_model\<close>. Without
  credentials the same input reaches \<open>fit\<close>, where scikit-learn refuses the parameter: the
  error the caller sees depends on tracking.
\<close>

theorem tracking_guard_raises:
  "open_run sample_env (ClearMLService_init tracking_on) ''RandomForest'' ''m'' (Some many_trees)
     = Some ''task-1''
   \<and> train_model sample_env tracking_on empty_state ''RandomForest'' ''m'' 1 2 (Some many_trees)
       = (Inl TypeError, empty_state)
   \<and> train_model sample_env tracking_off empty_state ''RandomForest'' ''m'' 1 2 (Some many_trees)
       = (Inl (LibraryError ''InvalidParameterError''), empty_state)"
  by (simp add: sample_defs many_trees_def)

text \<open>
  C5. \<open>retrain_model\<close> fails with \<open>NotFound\<close> exactly when no record exists for the name, and
  then changes nothing. With a record it is \<open>train_model\<close> on the record's type and on the
  record's hyperparameters when the caller supplies none, on the caller's otherwise; on
  success the new record and the stored unit carry that type and those hyperparameters.
\<close>

theorem retrain_reuses_record:
  "(fst (retrain_model env cfg s n X y hp) = Inl NotFound) = (metadata s n = None)
   \<and> (metadata s n = None \<longrightarrow> snd (retrain_model env cfg s n X y hp) = s)
   \<and> (\<forall>r. metadata s n = Some r \<longrightarrow>
         retrain_model env cfg s n X y hp =
           train_model env cfg s (mr_type r) n X y
             (Some (case hp of None \<Rightarrow> mr_hyperparameters r | Some h \<Rightarrow> h))
         \<and> (\<forall>m ms task_id s'.
               retrain_model env cfg s n X y hp = (Inr (m, ms, task_id), s') \<longrightarrow>
                 map_option mr_type (metadata s' n) = Some (mr_type r)
                 \<and> map_option mr_hyperparameters (metadata s' n) =
                     Some (case hp of None \<Rightarrow> mr_hyperparameters r | Some h \<Rightarrow> h)
                 \<and> files s' (model_path n) = Some m
                 \<and> MODEL_REGISTRY (mr_type r) = Some (cls m)
                 \<and> hyperparameters m =
                     (case hp of None \<Rightarrow> mr_hyperparameters r | Some h \<Rightarrow> h)))"
proof (cases "metadata s n")
  case None
  then show ?thesis by (simp add: retrain_model_unfold)
next
  case (Some r)
  let ?hp = "Some (case hp of None \<Rightarrow> mr_hyperparameters r | Some h \<Rightarrow> h)"
  have eq: "retrain_model env cfg s n X y hp = train_model env cfg s (mr_type r) n X y ?hp"
    using Some by (simp add: retrain_model_unfold)
  obtain res s1 where run: "train_model env cfg s (mr_type r) n X y ?hp = (res, s1)"
    by (cases "train_model env cfg s (mr_type r) n X y ?hp") auto
  from train_model_cases[OF run] have nf: "res \<noteq> Inl NotFound" by auto
  have ok: "\<And>m ms task_id. res = Inr (m, ms, task_id) \<Longrightarrow>
      map_option mr_type (metadata s1 n) = Some (mr_type r)
      \<and> map_option mr_hyperparameters (metadata s1 n) = ?hp
      \<and> files s1 (model_path n) = Some m
      \<and> MODEL_REGISTRY (mr_type r) = Some (cls m)
      \<and> hyperparameters m = (case hp of None \<Rightarrow> mr_hyperparameters r | Some h \<Rightarrow> h)"
    using train_model_cases[OF run] by (auto simp: written_def or_empty_def)
  show ?thesis using Some eq run nf ok by auto
qed

theorem retrain_reuses_record_witness:
  "metadata empty_state ''m'' = None
   \<and> retrain_model sample_env tracking_off empty_state ''m'' 5 6 None = (Inl NotFound, empty_state)
   \<and> map_option mr_type (metadata forest_state ''m'') = Some ''RandomForest''
   \<and> retrain_model sample_env tracking_off forest_state ''m'' 5 6 None
       = train_model sample_env tracking_off forest_state ''RandomForest'' ''m'' 5 6 (Some ten_trees)"
  using retrain_reuses_record[of sample_env tracking_off empty_state "''m''" 5 6 None]
    retrain_reuses_record[of sample_env tracking_off forest_state "''m''" 5 6 None]
    forest_state_metadata
  by (simp add: empty_state_def prod_eq_iff)

text \<open>
  C6. \<open>train_model\<close> fails with \<open>UnknownCapability\<close> if and only if the type is not a key of
  the registry, whose keys are \<open>LogisticRegression\<close> and \<open>RandomForest\<close>, and on that failure
  the state is the one it started from.
\<close>

theorem train_unknown_capability:
  "(fst (train_model env cfg s t n X y hp) = Inl UnknownCapability) = (t \<notin> dom MODEL_REGISTRY)
   \<and> (t \<notin> dom MODEL_REGISTRY \<longrightarrow> snd (train_model env cfg s t n X y hp) = s)
   \<and> dom MODEL_REGISTRY = {''LogisticRegression'', ''RandomForest''}"
proof -
  obtain r s' where run: "train_model env cfg s t n X y hp = (r, s')"
    by (cases "train_model env cfg s t n X y hp") auto
  from train_model_cases[OF run] have
    "(r = Inl UnknownCapability) = (MODEL_REGISTRY t = None)"
    "MODEL_REGISTRY t = None \<longrightarrow> s' = s"
    by auto
  moreover have "dom MODEL_REGISTRY = {''LogisticRegression'', ''RandomForest''}"
    by (auto simp: MODEL_REGISTRY_def)
  moreover have "(t \<notin> dom MODEL_REGISTRY) = (MODEL_REGISTRY t = None)"
    by (simp only: domIff not_not)
  ultimately show ?thesis using run by (simp only: fst_conv snd_conv)
qed

theorem train_unknown_capability_witness:
  "''SVM'' \<notin> dom MODEL_REGISTRY
   \<and> train_model sample_env tracking_on empty_state ''SVM'' ''m'' 1 2 None
       = (Inl UnknownCapability, empty_state)"
  using train_unknown_capability[of sample_env tracking_on empty_state "''SVM''" "''m''" 1 2 None]
  by (simp add: prod_eq_iff)

section \<open>Datasets\<close>




section \<open>Construction of the estimator\<close>

text \<open>
  C8. The keyword arguments of the estimator are the defaults of its class overridden
  pointwise by the hyperparameters of the caller: a key the caller gives has the caller's
  value, every other key has its default. Both registered classes construct their
  estimator with exactly these arguments.
\<close>

theorem estimator_gets_merged_parameters:
  "get_model_params c h k = (case h k of Some v \<Rightarrow> Some v | None \<Rightarrow> get_default_hyperparameters c k)
   \<and> (MODEL_REGISTRY t = Some c \<and> model_init env c (Some h) = Inr m \<longrightarrow>
        map_option sk_params (model m) = Some (get_model_params c h))"
  by (auto simp: get_model_params_def dict_update_def map_add_def or_empty_def
      dest!: model_init_cases(2) split: option.splits)

theorem estimator_gets_merged_parameters_witness:
  "MODEL_REGISTRY ''RandomForest'' = Some RandomForest
   \<and> model_init sample_env RandomForest (Some ten_trees)
       = Inr \<lparr>cls = RandomForest, hyperparameters = ten_trees,
              model = Some \<lparr>sk_class = RandomForest,
                            sk_params = get_model_params RandomForest ten_trees,
                            sk_fitted = None\<rparr>,
              is_trained = False\<rparr>
   \<and> get_model_params RandomForest ten_trees ''n_estimators'' = Some (PInt 10)
   \<and> get_model_params RandomForest ten_trees ''min_samples_split'' = Some (PInt 2)"
  using estimator_gets_merged_parameters[of RandomForest ten_trees "''n_estimators''"
      "''RandomForest''" sample_env]
    estimator_gets_merged_parameters[of RandomForest ten_trees "''min_samples_split''"
      "''RandomForest''" sample_env]
  by (simp add: MODEL_REGISTRY_def model_init_def BaseMLModel_init_def or_empty_def sample_env_def
      ten_trees_def Let_def)

section \<open>Prediction\<close>

text \<open>
  C9. \<open>save\<close> refuses a unit that is not trained, and prediction on a stored unit that is
  not trained fails with \<open>NotTrained\<close>. But from a directory whose units are all trained,
  the empty one for instance, every sequence of lifecycle operations leads to a directory
  whose units are all trained: every unit that can be loaded is trained and no prediction
  fails with \<open>NotTrained\<close>.
\<close>

theorem not_trained_is_unreachable:
  "(\<not> is_trained m \<longrightarrow> save m p s = (Inl NotTrained, s))
   \<and> (load_model s n = Inr m \<and> \<not> is_trained m \<longrightarrow> predict_model env s n rows = Inl NotTrained)
   \<and> (all_trained s \<longrightarrow>
        all_trained (run_ops env cfg s ops)
        \<and> predict_model env (run_ops env cfg s ops) n rows \<noteq> Inl NotTrained
        \<and> (\<forall>u. load_model (run_ops env cfg s ops) n = Inr u \<longrightarrow> is_trained u))"
proof -
  have 1: "\<not> is_trained m \<longrightarrow> save m p s = (Inl NotTrained, s)"
    by (simp add: save_def)
  have 2: "load_model s n = Inr m \<and> \<not> is_trained m \<longrightarrow> predict_model env s n rows = Inl NotTrained"
    by (simp add: predict_model_def predict_def)
  have 3: "all_trained s \<longrightarrow> all_trained (run_ops env cfg s ops)"
    by (simp add: run_ops_all_trained)
  have 4: "all_trained s \<longrightarrow> predict_model env (run_ops env cfg s ops) n rows \<noteq> Inl NotTrained"
    by (simp add: run_ops_all_trained predict_model_trained)
  have 5: "\<And>t. all_trained t \<Longrightarrow> \<forall>u. load_model t n = Inr u \<longrightarrow> is_trained u"
    by (auto simp: all_trained_def load_model_def split: option.splits)
  show ?thesis using 1 2 3 4 5[of "run_ops env cfg s ops"] by blast
qed

theorem not_trained_is_unreachable_witness:
  "\<not> is_trained untrained_forest
   \<and> save untrained_forest ''m.joblib'' empty_state = (Inl NotTrained, empty_state)
   \<and> load_model planted_state ''m'' = Inr untrained_forest
   \<and> predict_model sample_env planted_state ''m'' 7 = Inl NotTrained
   \<and> all_trained empty_state
   \<and> predict_model sample_env
        (run_ops sample_env tracking_on empty_state
           [Train ''RandomForest'' ''m'' 1 2 (Some ten_trees), Retrain ''m'' 5 6 None, Delete ''m''])
        ''m'' 7 \<noteq> Inl NotTrained"
proof -
  have u: "\<not> is_trained untrained_forest"
    by (simp add: untrained_forest_def BaseMLModel_init_def)
  have l: "load_model planted_state ''m'' = Inr untrained_forest"
    by (simp add: load_model_def planted_state_def model_path_m)
  show ?thesis
    using not_trained_is_unreachable[of untrained_forest "''m.joblib''" empty_state "''m''"
        sample_env 7 tracking_on
        "[Train ''RandomForest'' ''m'' 1 2 (Some ten_trees), Retrain ''m'' 5 6 None, Delete ''m'']"]
      not_trained_is_unreachable[of untrained_forest "''m.joblib''" planted_state "''m''"
        sample_env 7 tracking_on "[]"]
      u l all_trained_empty
    by simp
qed

section \<open>Resolution of dataset names\<close>




end
